theory Spec2Isabelle
  imports Complex_Main
begin

section \<open>Numbers\<close>

text \<open>
  The library computes on JavaScript numbers. They are modelled as the real numbers they
  stand for: rounding is left out, as in the data model of the specification (a Vector is
  a pair of real numbers). What the reals do not have is written into the model: a
  division by zero yields \<open>NaN\<close> (for \<open>0 / 0\<close>) or an infinity (for \<open>x / 0\<close>), the square
  root of a negative number yields \<open>NaN\<close>, and reading a property of \<open>undefined\<close> throws
  a \<open>TypeError\<close>. A computation that leaves the reals returns \<open>Inl\<close> of the first such
  value; every later JavaScript operation on it stays non-finite.
\<close>

datatype abnormal = NaN | Infinity | TypeError

definition js_div :: "real \<Rightarrow> real \<Rightarrow> abnormal + real" where
  "js_div x y = (if y = 0 then (if x = 0 then Inl NaN else Inl Infinity) else Inr (x / y))"

definition js_sqrt :: "real \<Rightarrow> abnormal + real" where
  "js_sqrt x = (if x < 0 then Inl NaN else Inr (sqrt x))"

text \<open>JavaScript truthiness of a value that is a number, \<open>null\<close> or \<open>undefined\<close>.\<close>

definition truthy :: "real option \<Rightarrow> bool" where
  "truthy v = (case v of None \<Rightarrow> False | Some x \<Rightarrow> x \<noteq> 0)"

section \<open>Vectors, matrices, transforms\<close>

text \<open>
  Type Vector is \<open>[x, y]\<close>, type Matrix is \<open>[Vector, Vector]\<close>, type Transform is an object
  with the fields \<open>A\<close> and \<open>b\<close> (here \<open>tA\<close> and \<open>tb\<close>). \<open>x[0]\<close> is \<open>fst x\<close> and \<open>x[1]\<close> is
  \<open>snd x\<close>.
\<close>

type_synonym vector = "real \<times> real"
type_synonym matrix = "vector \<times> vector"

record transform =
  tA :: matrix
  tb :: vector

definition scmult :: "real \<Rightarrow> vector \<Rightarrow> vector" where
  "scmult l x = (l * fst x, l * snd x)"

definition vcadd :: "vector \<Rightarrow> vector \<Rightarrow> vector" where
  "vcadd a b = (fst a + fst b, snd a + snd b)"

definition minus_v :: "vector \<Rightarrow> vector \<Rightarrow> vector" where
  "minus_v a b = (fst a - fst b, snd a - snd b)"

definition dot :: "vector \<Rightarrow> vector \<Rightarrow> real" where
  "dot a b = fst a * fst b + snd a * snd b"

definition wedge :: "vector \<Rightarrow> vector \<Rightarrow> real" where
  "wedge a b = fst a * snd b - snd a * fst b"

definition apply_m :: "matrix \<Rightarrow> vector \<Rightarrow> vector" where
  "apply_m M x = vcadd (scmult (fst x) (fst M)) (scmult (snd x) (snd M))"

definition mult :: "matrix \<Rightarrow> matrix \<Rightarrow> matrix" where
  "mult M N = (apply_m M (fst N), apply_m M (snd N))"

definition cascade :: "transform \<Rightarrow> transform \<Rightarrow> transform" where
  "cascade T U = \<lparr>tA = mult (tA T) (tA U), tb = vcadd (apply_m (tA T) (tb U)) (tb T)\<rparr>"

definition rotate_m :: "real \<Rightarrow> real \<Rightarrow> matrix" where
  "rotate_m c s = ((c, s), (- s, c))"

definition rotscale :: "vector \<Rightarrow> vector \<Rightarrow> abnormal + matrix" where
  "rotscale a b =
     (let alen = dot a a; sig = dot a b; del = wedge a b in
      case js_div sig alen of
        Inl e \<Rightarrow> Inl e
      | Inr c \<Rightarrow> (case js_div del alen of
                   Inl e \<Rightarrow> Inl e
                 | Inr s \<Rightarrow> Inr (rotate_m c s)))"

definition justscale :: "vector \<Rightarrow> vector \<Rightarrow> abnormal + matrix" where
  "justscale a b =
     (case js_sqrt (dot a a) of
        Inl e \<Rightarrow> Inl e
      | Inr alen \<Rightarrow> (case js_sqrt (dot b b) of
                      Inl e \<Rightarrow> Inl e
                    | Inr blen \<Rightarrow> (case js_div blen alen of
                                    Inl e \<Rightarrow> Inl e
                                  | Inr scale \<Rightarrow> Inr (rotate_m scale 0))))"

type_synonym pointpair = "vector \<times> vector"

definition zoom :: "pointpair \<Rightarrow> pointpair \<Rightarrow> bool \<Rightarrow> abnormal + transform" where
  "zoom s d rot =
     (let a = minus_v (snd s) (fst s);
          b = minus_v (snd d) (fst d)
      in case (if rot then rotscale a b else justscale a b) of
           Inl e \<Rightarrow> Inl e
         | Inr rs \<Rightarrow>
             (let rs0 = apply_m rs (fst s);
                  t = minus_v (fst d) rs0
              in Inr \<lparr>tA = rs, tb = t\<rparr>))"

definition avgVector :: "vector \<Rightarrow> vector \<Rightarrow> real \<Rightarrow> vector" where
  "avgVector u v progress =
     (let u1 = scmult (1 - progress) u; v1 = scmult progress v in vcadd u1 v1)"

definition avgMatrix :: "matrix \<Rightarrow> matrix \<Rightarrow> real \<Rightarrow> matrix" where
  "avgMatrix M N progress =
     (avgVector (fst M) (fst N) progress, avgVector (snd M) (snd N) progress)"

definition avg :: "transform \<Rightarrow> transform \<Rightarrow> real \<Rightarrow> transform" where
  "avg Z I progress =
     \<lparr>tA = avgMatrix (tA Z) (tA I) progress, tb = avgVector (tb Z) (tb I) progress\<rparr>"

definition identity :: transform where
  "identity = \<lparr>tA = ((1, 0), (0, 1)), tb = (0, 0)\<rparr>"

text \<open>
  A Transform "represents a transform operation, Ax + b" (the comment of its
  constructor, and the derivation in the comment of \<open>cascade\<close>): the point it sends
  \<open>x\<close> to.
\<close>

definition transform_at :: "transform \<Rightarrow> vector \<Rightarrow> vector" where
  "transform_at T x = vcadd (apply_m (tA T) x) (tb T)"

section \<open>The Zoom object\<close>

text \<open>
  The configuration after \<open>default_config\<close>. \<open>minScale\<close> and \<open>maxScale\<close> are a number or
  \<open>null\<close>; the code reads both through their truthiness (\<open>if (minScale)\<close>), so 0 counts
  as not set. \<open>boundaries\<close> holds whether the option is \<open>=== true\<close>.
\<close>

record config =
  pan :: bool
  rotate_cfg :: bool
  minScale :: "real option"
  maxScale :: "real option"
  boundaries :: bool

text \<open>
  What the code reads from its host: whether \<open>wnd.requestAnimationFrame\<close> exists, the
  element's offset, and the viewport size (\<open>clientWidth || innerWidth\<close>).
\<close>

record host =
  requestAnimationFrame :: bool
  offsetLeft :: real
  offsetTop :: real
  windowWidth :: real
  windowHeight :: real

record touch =
  pageX :: real
  pageY :: real

text \<open>A touch event is its \<open>touches\<close> list, or \<open>None\<close> when the event carries none.\<close>

type_synonym event = "touch list option"

text \<open>
  The closure \<open>step\<close> that \<open>reset\<close> hands to \<open>requestAnimationFrame\<close>: the variables it
  captures.
\<close>

record animation =
  animZ :: transform
  newIdentity :: transform
  startTime :: "real option"

text \<open>
  The fields of a Zoom object, followed by what it has done to its host: \<open>painted\<close> lists
  the transforms written to \<open>elem.style.transform\<close> (newest first), \<open>frames\<close> the pending
  \<open>requestAnimationFrame\<close> callbacks, \<open>graceTimers\<close> the pending 100 ms timeouts of \<open>reset\<close>.
  \<open>mayBeDoubleTap\<close> holds whether the field is a timer handle (not \<open>null\<close>).
\<close>

record zoom_obj =
  mayBeDoubleTap :: bool
  isAnimationRunning :: bool
  curTouch :: nat
  activeZoom :: transform
  resultantZoom :: transform
  srcCoords :: pointpair
  destCoords :: pointpair
  config :: config
  pixelSize :: "real \<times> real"
  painted :: "transform list"
  frames :: "animation list"
  graceTimers :: nat

fun getCoordsDouble :: "host \<Rightarrow> touch list \<Rightarrow> abnormal + pointpair" where
  "getCoordsDouble h (t0 # t1 # ts) =
     (let oX = offsetLeft h; oY = offsetTop h
      in Inr ((pageX t0 - oX, pageY t0 - oY), (pageX t1 - oX, pageY t1 - oY)))"
| "getCoordsDouble h ts = Inl TypeError"

fun getCoordsSingle :: "host \<Rightarrow> touch list \<Rightarrow> abnormal + pointpair" where
  "getCoordsSingle h (t0 # ts) =
     (let oX = offsetLeft h; oY = offsetTop h;
          x = pageX t0 - oX; y = pageY t0 - oY
      in Inr ((x, y), (x + 1, y + 1)))"
| "getCoordsSingle h [] = Inl TypeError"

definition getCoords :: "host \<Rightarrow> touch list \<Rightarrow> abnormal + pointpair" where
  "getCoords h t = (if length t > 1 then getCoordsDouble h t else getCoordsSingle h t)"

definition setSrcAndDest :: "host \<Rightarrow> touch list \<Rightarrow> zoom_obj \<Rightarrow> abnormal + zoom_obj" where
  "setSrcAndDest h touches s =
     (case getCoords h touches of
        Inl e \<Rightarrow> Inl e
      | Inr c \<Rightarrow> Inr (s\<lparr>srcCoords := c, destCoords := c\<rparr>))"

definition setDest :: "host \<Rightarrow> touch list \<Rightarrow> zoom_obj \<Rightarrow> abnormal + zoom_obj" where
  "setDest h touches s =
     (case getCoords h touches of
        Inl e \<Rightarrow> Inl e
      | Inr c \<Rightarrow> Inr (s\<lparr>destCoords := c\<rparr>))"

definition finalize :: "zoom_obj \<Rightarrow> zoom_obj" where
  "finalize s = s\<lparr>activeZoom := resultantZoom s\<rparr>"

definition repaint :: "zoom_obj \<Rightarrow> zoom_obj" where
  "repaint s = s\<lparr>painted := resultantZoom s # painted s\<rparr>"

definition setZoom :: "transform \<Rightarrow> zoom_obj \<Rightarrow> zoom_obj" where
  "setZoom newZoom s = repaint (s\<lparr>resultantZoom := newZoom\<rparr>)"

text \<open>
  \<open>reset\<close>: with a frame scheduler it sets the flag, chooses the target and schedules
  \<open>step\<close>; without one it sets the identity at once.
\<close>

definition reset :: "host \<Rightarrow> bool \<Rightarrow> zoom_obj \<Rightarrow> zoom_obj" where
  "reset h useOriginalIdentity s =
     (if requestAnimationFrame h then
        (let s1 = s\<lparr>isAnimationRunning := True\<rparr>;
             Z = activeZoom s1;
             target =
               (case maxScale (config s1) of
                  None \<Rightarrow> identity
                | Some mx \<Rightarrow>
                    if mx \<noteq> 0 \<and> \<not> useOriginalIdentity
                       \<and> fst (fst (tA Z)) = 1 \<and> snd (snd (tA Z)) = 1
                    then
                      (let middleX = - (((fst (pixelSize s1) * mx - windowWidth h) / 2)
                                        + offsetLeft h);
                           middleY = - (((windowHeight h / 2) - (snd (pixelSize s1) / 2))
                                        + ((snd (pixelSize s1) * mx - windowHeight h) / 2))
                       in \<lparr>tA = ((mx, 0), (0, mx)), tb = (middleX, middleY)\<rparr>)
                    else identity)
         in s1\<lparr>frames := frames s1 @ [\<lparr>animZ = Z, newIdentity = target, startTime = None\<rparr>]\<rparr>)
      else setZoom identity s)"

text \<open>One call of \<open>step(time)\<close>, and the host events that run the pending callbacks.\<close>

definition step :: "animation \<Rightarrow> real \<Rightarrow> zoom_obj \<Rightarrow> zoom_obj" where
  "step an time s =
     (let st = (case startTime an of None \<Rightarrow> time | Some v \<Rightarrow> if v = 0 then time else v);
          progress = (time - st) / 100
      in if progress \<ge> 1
         then (setZoom (newIdentity an) s)\<lparr>graceTimers := Suc (graceTimers s)\<rparr>
         else (let s1 = setZoom (avg (animZ an) (newIdentity an) progress) s
               in s1\<lparr>frames := frames s1 @ [an\<lparr>startTime := Some st\<rparr>]\<rparr>))"

definition animationFrame :: "real \<Rightarrow> zoom_obj \<Rightarrow> zoom_obj" where
  "animationFrame time s =
     (case frames s of
        [] \<Rightarrow> s
      | an # rest \<Rightarrow> step an time (s\<lparr>frames := rest\<rparr>))"

definition graceTimeout :: "zoom_obj \<Rightarrow> zoom_obj" where
  "graceTimeout s =
     (if graceTimers s = 0 then s
      else s\<lparr>isAnimationRunning := False, graceTimers := graceTimers s - 1\<rparr>)"

definition doubleTapTimeout :: "zoom_obj \<Rightarrow> zoom_obj" where
  "doubleTapTimeout s = s\<lparr>mayBeDoubleTap := False\<rparr>"

text \<open>
  \<open>checkPan\<close> returns \<open>proceed\<close> and the object after the \<open>finalize\<close> and \<open>reset(true)\<close> of
  its first branch.
\<close>

definition checkPan :: "host \<Rightarrow> transform \<Rightarrow> zoom_obj \<Rightarrow> bool \<times> zoom_obj" where
  "checkPan h resultant s =
     (let M = tA resultant;
          below = (case minScale (config s) of
                     None \<Rightarrow> False
                   | Some m \<Rightarrow> m \<noteq> 0 \<and> fst (fst M) \<le> m \<and> snd (snd M) \<le> m);
          s1 = (if below then reset h True (finalize s) else s);
          proceed1 = (if below then False else True);
          above = (case maxScale (config s1) of
                     None \<Rightarrow> False
                   | Some m \<Rightarrow> m \<noteq> 0 \<and> fst (fst M) > m \<and> snd (snd M) > m);
          proceed = (if above then False else proceed1)
      in (proceed, s1))"

text \<open>
  \<open>checkBoundaries\<close> changes the translation only. \<open>yTop\<close>, \<open>yBottom\<close>, \<open>xLeft\<close> and
  \<open>xRight\<close> start \<open>undefined\<close> (\<open>None\<close>) and are tested by truthiness; \<open>yTop >= 0\<close> is
  false for \<open>undefined\<close>.
\<close>

definition assigned :: "real option \<Rightarrow> real \<Rightarrow> real" where
  "assigned v old = (case v of None \<Rightarrow> old | Some x \<Rightarrow> x)"

definition portrait :: "host \<Rightarrow> zoom_obj \<Rightarrow> real \<Rightarrow> real \<Rightarrow> vector \<Rightarrow> vector" where
  "portrait h s width height b =
     (let b0 = (if fst b \<ge> 0 then 0 else fst b);
          b0 = (if \<bar>b0\<bar> \<ge> width - windowWidth h then (width - windowWidth h) * - 1 else b0);
          yTopFormula = ((windowHeight h - snd (pixelSize s)) / 2) * - 1;
          yTop = (if snd b \<le> yTopFormula then Some yTopFormula else None);
          yBottomFormula = ((windowHeight h - snd (pixelSize s)) / 2)
                           - (height - snd (pixelSize s));
          yBottom = (if snd b > yBottomFormula then Some yBottomFormula else None);
          b1 = (if height < windowHeight h then
                  (if truthy yTop \<and> \<not> truthy yBottom then assigned yTop (snd b)
                   else if truthy yBottom \<and> \<not> truthy yTop then assigned yBottom (snd b)
                   else snd b)
                else
                  (if truthy yTop \<and> \<not> truthy yBottom then yBottomFormula
                   else if truthy yBottom \<and> \<not> truthy yTop then yTopFormula
                   else snd b))
      in (b0, b1))"

definition landscape :: "host \<Rightarrow> zoom_obj \<Rightarrow> real \<Rightarrow> real \<Rightarrow> vector \<Rightarrow> vector" where
  "landscape h s width height b =
     (let xRightFormula = offsetLeft h * - 1;
          xRight = (if fst b \<ge> xRightFormula then Some xRightFormula else None);
          xLeftFormula = ((windowWidth h - fst (pixelSize s)) / 2)
                         - (width - fst (pixelSize s));
          xLeft = (if fst b \<le> xLeftFormula then Some xLeftFormula else None);
          widerImage = (width > windowWidth h);
          b0 = (if truthy xRight \<and> \<not> truthy xLeft
                then (if widerImage then assigned xRight (fst b) else xLeftFormula)
                else if truthy xLeft \<and> \<not> truthy xRight
                then (if widerImage then assigned xLeft (fst b) else xRightFormula)
                else fst b);
          yTop = (if snd b \<ge> 0 then Some 0 else None);
          yBottom = (if snd b \<ge> 0 then None
                     else if \<bar>snd b\<bar> \<ge> height - windowHeight h
                     then Some ((height - windowHeight h) * - 1) else None);
          b1 = (if (case yTop of None \<Rightarrow> False | Some y \<Rightarrow> y \<ge> 0) \<and> \<not> truthy yBottom
                then assigned yTop (snd b)
                else if truthy yBottom \<and> \<not> truthy yTop then assigned yBottom (snd b)
                else snd b)
      in (b0, b1))"

definition checkBoundaries :: "host \<Rightarrow> zoom_obj \<Rightarrow> transform \<Rightarrow> transform" where
  "checkBoundaries h s resultant =
     (let M = tA resultant; b = tb resultant
      in if boundaries (config s) then
           (let width = fst (pixelSize s) * fst (fst M);
                height = snd (pixelSize s) * snd (snd M)
            in if windowHeight h > windowWidth h
               then \<lparr>tA = M, tb = portrait h s width height b\<rparr>
               else \<lparr>tA = M, tb = landscape h s width height b\<rparr>)
         else resultant)"

definition previewZoom :: "host \<Rightarrow> zoom_obj \<Rightarrow> abnormal + zoom_obj" where
  "previewZoom h s =
     (case zoom (srcCoords s) (destCoords s) (rotate_cfg (config s)) of
        Inl e \<Rightarrow> Inl e
      | Inr additionalZoom \<Rightarrow>
          (let resultant = cascade additionalZoom (activeZoom s);
               (proceed, s1) = checkPan h resultant s
           in if proceed = False then Inr s1
              else Inr (repaint (s1\<lparr>resultantZoom := checkBoundaries h s1 resultant\<rparr>))))"

text \<open>
  The listeners of the later file. \<open>handleTouchEvent\<close> wraps a callback: it returns at
  once while an animation runs or when the event has no \<open>touches\<close>. Its first statement,
  \<open>evt.preventDefault()\<close>, acts on the event and not on the Zoom object; it is left out.
\<close>

definition handleTouchEvent ::
  "(touch list \<Rightarrow> zoom_obj \<Rightarrow> abnormal + zoom_obj) \<Rightarrow> event \<Rightarrow> zoom_obj \<Rightarrow> abnormal + zoom_obj"
where
  "handleTouchEvent cb evt s =
     (if isAnimationRunning s then Inr s
      else case evt of
             None \<Rightarrow> Inr s
           | Some touches \<Rightarrow> cb touches s)"

definition handleZoom :: "host \<Rightarrow> event \<Rightarrow> zoom_obj \<Rightarrow> abnormal + zoom_obj" where
  "handleZoom h =
     handleTouchEvent (\<lambda>touches s.
       let numOfFingers = length touches
       in if numOfFingers \<noteq> curTouch s then
            (let s1 = finalize (s\<lparr>curTouch := numOfFingers\<rparr>)
             in if numOfFingers \<noteq> 0 then setSrcAndDest h touches s1 else Inr s1)
          else if numOfFingers \<noteq> 0 then
            (case setDest h touches s of
               Inl e \<Rightarrow> Inl e
             | Inr s1 \<Rightarrow> previewZoom h s1)
          else Inr s)"

definition handleTouchStart :: "host \<Rightarrow> event \<Rightarrow> zoom_obj \<Rightarrow> abnormal + zoom_obj" where
  "handleTouchStart h =
     handleTouchEvent (\<lambda>touches s.
       if length touches = 1 then
         (if mayBeDoubleTap s
          then Inr ((reset h False s)\<lparr>mayBeDoubleTap := False\<rparr>)
          else Inr (s\<lparr>mayBeDoubleTap := True\<rparr>))
       else Inr s)"

datatype event_type = touchstart | touchmove | touchend

text \<open>The listeners run in the order they were added.\<close>

definition dispatch :: "host \<Rightarrow> event_type \<Rightarrow> event \<Rightarrow> zoom_obj \<Rightarrow> abnormal + zoom_obj" where
  "dispatch h ty evt s =
     (case ty of
        touchstart \<Rightarrow>
          (case handleTouchStart h evt s of
             Inl e \<Rightarrow> Inl e
           | Inr s1 \<Rightarrow> handleZoom h evt s1)
      | touchmove \<Rightarrow> handleZoom h evt s
      | touchend \<Rightarrow> handleZoom h evt s)"

text \<open>
  The listeners of the earlier file (zoom-1.0.7-beta.js): each switches on the number of
  touches and calls the handler for one contact or for two, taken here as parameters;
  any other count returns \<open>false\<close>.
\<close>

definition beta_listener :: "('s \<Rightarrow> 's) \<Rightarrow> ('s \<Rightarrow> 's) \<Rightarrow> event \<Rightarrow> 's \<Rightarrow> 's" where
  "beta_listener h1 h2 evt s =
     (case evt of
        None \<Rightarrow> s
      | Some t \<Rightarrow>
          (let ts = length t
           in if ts = 1 then h1 s else if ts = 2 then h2 s else s))"

section \<open>Sample objects\<close>

text \<open>
  A host with a frame scheduler and one without; the default configuration; and a Zoom
  object as it is after two fingers touched down at (0,0) and (10,0) on a fresh element.
\<close>

definition host0 :: host where
  "host0 = \<lparr>requestAnimationFrame = True, offsetLeft = 0, offsetTop = 0,
            windowWidth = 800, windowHeight = 600\<rparr>"

definition host_plain :: host where
  "host_plain = host0\<lparr>requestAnimationFrame := False\<rparr>"

definition config0 :: config where
  "config0 = \<lparr>pan = False, rotate_cfg = True, minScale = None, maxScale = None,
              boundaries = False\<rparr>"

definition zoom0 :: zoom_obj where
  "zoom0 = \<lparr>mayBeDoubleTap = False, isAnimationRunning = False, curTouch = 2,
            activeZoom = identity, resultantZoom = identity,
            srcCoords = ((0, 0), (10, 0)), destCoords = ((0, 0), (10, 0)),
            config = config0, pixelSize = (400, 300),
            painted = [], frames = [], graceTimers = 0\<rparr>"

definition twice :: transform where
  "twice = \<lparr>tA = ((2, 0), (0, 2)), tb = (0, 0)\<rparr>"


text \<open>
  \<open>zoom_max\<close>: \<open>maxScale\<close> is 2 and the element is shown at scale 2. \<open>pinch_pan\<close> moves the
  two fingers to (5,5) and (25,5): twice as far apart, and shifted by (5,5).
  \<open>zoom_drag\<close> is the same element under one finger that went down at (0,0) and is now
  at (3,4).
\<close>

definition zoom_max :: zoom_obj where
  "zoom_max = zoom0\<lparr>config := config0\<lparr>maxScale := Some 2\<rparr>,
                    activeZoom := twice, resultantZoom := twice\<rparr>"

definition pinch_pan :: event where
  "pinch_pan = Some [\<lparr>pageX = 5, pageY = 5\<rparr>, \<lparr>pageX = 25, pageY = 5\<rparr>]"

definition zoom_drag :: zoom_obj where
  "zoom_drag = zoom_max\<lparr>curTouch := 1, srcCoords := ((0, 0), (1, 1)),
                        destCoords := ((3, 4), (4, 5))\<rparr>"

text \<open>
  \<open>zoom_min0\<close>: \<open>minScale\<close> is 0; \<open>half_turn\<close> turns the two fingers by half a turn.
  \<open>zoom_min\<close>: \<open>minScale\<close> is 1/2 and scale 3/4 is displayed, not yet finalized; \<open>pinch_in\<close>
  closes the fingers to half the distance they went down with.
\<close>

definition zoom_min0 :: zoom_obj where
  "zoom_min0 = zoom0\<lparr>config := config0\<lparr>minScale := Some 0\<rparr>\<rparr>"

definition half_turn :: event where
  "half_turn = Some [\<lparr>pageX = 0, pageY = 0\<rparr>, \<lparr>pageX = - 10, pageY = 0\<rparr>]"

definition zoom_min :: zoom_obj where
  "zoom_min = zoom0\<lparr>config := config0\<lparr>minScale := Some (1 / 2)\<rparr>,
                    resultantZoom := \<lparr>tA = ((3 / 4, 0), (0, 3 / 4)), tb = (0, 0)\<rparr>\<rparr>"

definition pinch_in :: event where
  "pinch_in = Some [\<lparr>pageX = 0, pageY = 0\<rparr>, \<lparr>pageX = 5, pageY = 0\<rparr>]"

text \<open>
  \<open>zoom_pinching\<close>: in the middle of a pinch, scale 2 displayed and not yet finalized.
  \<open>three_touches\<close>: a third finger has come down.
\<close>

definition zoom_pinching :: zoom_obj where
  "zoom_pinching = zoom0\<lparr>resultantZoom := twice\<rparr>"

definition three_touches :: event where
  "three_touches = Some [\<lparr>pageX = 0, pageY = 0\<rparr>, \<lparr>pageX = 20, pageY = 0\<rparr>,
                         \<lparr>pageX = 7, pageY = 9\<rparr>]"

definition two_touches :: event where
  "two_touches = Some [\<lparr>pageX = 0, pageY = 0\<rparr>, \<lparr>pageX = 20, pageY = 0\<rparr>]"

section \<open>Algebra of transforms\<close>

lemmas vec_defs = scmult_def vcadd_def minus_v_def dot_def wedge_def apply_m_def mult_def

lemmas run_defs = dispatch_def handleZoom_def handleTouchStart_def handleTouchEvent_def
  setDest_def setSrcAndDest_def getCoords_def previewZoom_def zoom_def rotscale_def
  js_div_def vec_defs rotate_m_def cascade_def identity_def checkPan_def checkBoundaries_def
  repaint_def finalize_def reset_def setZoom_def Let_def

lemmas sample_defs = zoom0_def config0_def host0_def host_plain_def twice_def

text \<open>\<open>cascade\<close> is composition: its comment defines it by \<open>(T o U)(x) = T(U(x))\<close>.\<close>

lemma cascade_at: "transform_at (cascade T U) x = transform_at T (transform_at U x)"
  by (simp add: transform_at_def cascade_def vec_defs algebra_simps)



lemma cascade_pure_translation:
  "tA Z = ((1, 0), (0, 1)) \<Longrightarrow> cascade Z T = \<lparr>tA = tA T, tb = vcadd (tb T) (tb Z)\<rparr>"
  by (simp add: cascade_def vec_defs)


text \<open>
  C8. \<open>Transform.avg\<close> is the component-wise blend \<open>(1 - p) Z + p I\<close> of the matrix and of
  the translation; at progress 0 it is \<open>Z\<close> and at progress 1 it is \<open>I\<close>.
\<close>

theorem avg_linear_blend:
  "avg Z I p =
     \<lparr>tA = (((1 - p) * fst (fst (tA Z)) + p * fst (fst (tA I)),
             (1 - p) * snd (fst (tA Z)) + p * snd (fst (tA I))),
            ((1 - p) * fst (snd (tA Z)) + p * fst (snd (tA I)),
             (1 - p) * snd (snd (tA Z)) + p * snd (snd (tA I)))),
      tb = ((1 - p) * fst (tb Z) + p * fst (tb I),
            (1 - p) * snd (tb Z) + p * snd (tb I))\<rparr>
   \<and> avg Z I 0 = Z \<and> avg Z I 1 = I"
  by (simp add: avg_def avgMatrix_def avgVector_def vec_defs)

section \<open>The gesture resolver\<close>

lemma dot_self_eq_0: "dot a a = 0 \<longleftrightarrow> a = (0, 0)"
  by (cases a) (simp add: dot_def flip: power2_eq_square)

lemma dot_self_nonneg: "0 \<le> dot a a"
  by (simp add: dot_def)





lemma rotscale_zero: "rotscale (0, 0) b = Inl NaN"
  by (simp add: rotscale_def js_div_def dot_def wedge_def)



lemma justscale_zero:
  "justscale (0, 0) b = Inl (if b = (0, 0) then NaN else Infinity)"
  using dot_self_nonneg [of b]
  by (simp add: justscale_def js_sqrt_def js_div_def dot_self_eq_0 not_less) (simp add: dot_def)








text \<open>
  C4, amended: for a source pair whose two points coincide the resolver has no guard. With
  \<open>rotate\<close> true both rotation terms are \<open>0 / 0\<close>, so the result is \<open>NaN\<close>; with \<open>rotate\<close>
  false the scale is \<open>|b| / 0\<close>, so the result is \<open>NaN\<close> or an infinity. In neither mode
  is a fallback transform returned.
\<close>

theorem zoom_coincident_source:
  "zoom (p, p) d True = Inl NaN \<and> zoom (p, p) d False \<in> {Inl NaN, Inl Infinity}"
  by (simp add: zoom_def minus_v_def rotscale_zero justscale_zero)

text \<open>
  The claim as worded (a defined fallback instead of \<open>NaN\<close>) fails for the source pair
  (0,0), (0,0) and the destination pair (0,0), (1,0).
\<close>

theorem zoom_coincident_counterexample:
  "zoom ((0, 0), (0, 0)) ((0, 0), (1, 0)) True = Inl NaN"
  by (simp add: zoom_def minus_v_def rotscale_zero)



section \<open>The touch listeners\<close>

text \<open>
  C5. While \<open>isAnimationRunning\<close> is true a touch event of any type changes nothing: the
  Zoom object after it equals the object before it, in every field (the coordinates, both
  transforms, the contact count, the double-tap timer) and in what was painted and
  scheduled.
\<close>

theorem animation_ignores_touches:
  assumes "isAnimationRunning s"
  shows "dispatch h ty evt s = Inr s
         \<and> handleZoom h evt s = Inr s \<and> handleTouchStart h evt s = Inr s"
  using assms
  by (cases ty)
    (simp_all add: dispatch_def handleZoom_def handleTouchStart_def handleTouchEvent_def)

text \<open>The same move event changes the object when the flag is not set.\<close>

theorem animation_ignores_touches_witness:
  "isAnimationRunning (zoom0\<lparr>isAnimationRunning := True\<rparr>)
   \<and> dispatch host0 touchmove two_touches (zoom0\<lparr>isAnimationRunning := True\<rparr>)
       = Inr (zoom0\<lparr>isAnimationRunning := True\<rparr>)
   \<and> dispatch host0 touchmove two_touches zoom0 \<noteq> Inr zoom0"
  using animation_ignores_touches
    [of "zoom0\<lparr>isAnimationRunning := True\<rparr>" host0 touchmove two_touches]
  by (simp add: sample_defs two_touches_def run_defs)

text \<open>
  C9. The claim is that an event with more than two contacts changes nothing. The
  listeners of the earlier file do that (\<open>beta_listener_ignores\<close> below), those of the later
  file do not: in the middle of a two-finger pinch, a move event with three touches makes
  \<open>handleZoom\<close> record the count 3, finalize the displayed transform and capture the first
  two contacts as the new source and destination pair.
\<close>

theorem handleZoom_three_touches:
  "dispatch host0 touchmove three_touches zoom_pinching
     = Inr (zoom_pinching\<lparr>curTouch := 3, activeZoom := twice,
                          srcCoords := ((0, 0), (20, 0)), destCoords := ((0, 0), (20, 0))\<rparr>)
   \<and> dispatch host0 touchmove three_touches zoom_pinching \<noteq> Inr zoom_pinching"
  by (simp add: sample_defs zoom_pinching_def three_touches_def run_defs)

lemma beta_listener_ignores:
  "length t > 2 \<Longrightarrow> beta_listener h1 h2 (Some t) s = s"
  by (simp add: beta_listener_def Let_def)

section \<open>The scale limits\<close>

lemma previewZoom_min:
  assumes "minScale (config s) = Some m" "m \<noteq> 0"
    and "zoom (srcCoords s) (destCoords s) (rotate_cfg (config s)) = Inr Z"
    and "fst (fst (tA (cascade Z (activeZoom s)))) \<le> m"
    and "snd (snd (tA (cascade Z (activeZoom s)))) \<le> m"
  shows "previewZoom h s = Inr (reset h True (finalize s))"
proof -
  have "checkPan h (cascade Z (activeZoom s)) s = (False, reset h True (finalize s))"
    using assms(1,2,4,5) by (simp add: checkPan_def Let_def)
  then show ?thesis using assms(3) by (simp add: previewZoom_def Let_def)
qed

lemma reset_true_finalize:
  "reset h True (finalize s) =
     (if requestAnimationFrame h
      then s\<lparr>activeZoom := resultantZoom s, isAnimationRunning := True,
             frames := frames s @ [\<lparr>animZ = resultantZoom s, newIdentity = identity,
                                     startTime = None\<rparr>]\<rparr>
      else s\<lparr>activeZoom := resultantZoom s, resultantZoom := identity,
             painted := identity # painted s\<rparr>)"
  by (simp add: reset_def finalize_def setZoom_def repaint_def Let_def split: option.splits)

lemma previewZoom_max:
  assumes "maxScale (config s) = Some M" "M \<noteq> 0"
    and "\<forall>m. minScale (config s) = Some m \<longrightarrow> m \<le> M"
    and "zoom (srcCoords s) (destCoords s) (rotate_cfg (config s)) = Inr Z"
    and "fst (fst (tA (cascade Z (activeZoom s)))) > M"
    and "snd (snd (tA (cascade Z (activeZoom s)))) > M"
  shows "previewZoom h s = Inr s"
proof -
  have below: "(case minScale (config s) of None \<Rightarrow> False
         | Some m \<Rightarrow> m \<noteq> 0 \<and> fst (fst (tA (cascade Z (activeZoom s)))) \<le> m
                      \<and> snd (snd (tA (cascade Z (activeZoom s)))) \<le> m) = False"
    using assms(3,5) by (cases "minScale (config s)") auto
  have "checkPan h (cascade Z (activeZoom s)) s = (False, s)"
    using assms(1,2,5,6) by (simp add: checkPan_def Let_def below)
  then show ?thesis using assms(4) by (simp add: previewZoom_def Let_def)
qed

lemma previewZoom_pan:
  assumes "maxScale (config s) = Some M"
    and "zoom (srcCoords s) (destCoords s) (rotate_cfg (config s)) = Inr Z"
    and "tA Z = ((1, 0), (0, 1))"
    and "\<not> (fst (fst (tA (activeZoom s))) > M \<and> snd (snd (tA (activeZoom s))) > M)"
    and "minScale (config s) = None" and "\<not> boundaries (config s)"
  shows "previewZoom h s =
           Inr (repaint (s\<lparr>resultantZoom :=
                  \<lparr>tA = tA (activeZoom s), tb = vcadd (tb (activeZoom s)) (tb Z)\<rparr>\<rparr>))"
proof -
  let ?R = "\<lparr>tA = tA (activeZoom s), tb = vcadd (tb (activeZoom s)) (tb Z)\<rparr>"
  have c: "cascade Z (activeZoom s) = ?R"
    by (rule cascade_pure_translation [OF assms(3)])
  have "checkPan h ?R s = (True, s)"
    using assms(1,4,5) by (auto simp add: checkPan_def Let_def)
  then show ?thesis
    using assms(2,6) by (simp add: previewZoom_def c checkBoundaries_def Let_def)
qed

text \<open>
  C6, amended: when \<open>minScale\<close> is set to a number other than 0 and both diagonal components
  of the proposed preview are at most \<open>minScale\<close>, \<open>previewZoom\<close> does not display the
  proposal; it finalizes the displayed transform and runs \<open>reset(true)\<close>. With a frame
  scheduler that sets \<open>isAnimationRunning\<close> and schedules an animation from the finalized
  transform to the identity, and nothing is painted yet; without one the identity is set
  and painted at once.
\<close>

theorem previewZoom_minScale_snap_back:
  assumes "minScale (config s) = Some m" and "m \<noteq> 0"
    and "zoom (srcCoords s) (destCoords s) (rotate_cfg (config s)) = Inr Z"
    and "fst (fst (tA (cascade Z (activeZoom s)))) \<le> m"
    and "snd (snd (tA (cascade Z (activeZoom s)))) \<le> m"
  shows "previewZoom h s = Inr (reset h True (finalize s))
         \<and> reset h True (finalize s) =
             (if requestAnimationFrame h
              then s\<lparr>activeZoom := resultantZoom s, isAnimationRunning := True,
                     frames := frames s @ [\<lparr>animZ = resultantZoom s, newIdentity = identity,
                                             startTime = None\<rparr>]\<rparr>
              else s\<lparr>activeZoom := resultantZoom s, resultantZoom := identity,
                     painted := identity # painted s\<rparr>)"
  using previewZoom_min [OF assms] reset_true_finalize by simp

text \<open>
  With \<open>minScale\<close> 1/2, scale 3/4 on display and the fingers closed to half their distance,
  on a host with a frame scheduler and on one without.
\<close>

theorem previewZoom_minScale_snap_back_witness:
  "minScale (config zoom_min) = Some (1 / 2) \<and> (1 / 2 :: real) \<noteq> 0
   \<and> zoom (srcCoords zoom_min) ((0, 0), (5, 0)) (rotate_cfg (config zoom_min))
       = Inr \<lparr>tA = ((1 / 2, 0), (0, 1 / 2)), tb = (0, 0)\<rparr>
   \<and> cascade \<lparr>tA = ((1 / 2, 0), (0, 1 / 2)), tb = (0, 0)\<rparr> (activeZoom zoom_min)
       = \<lparr>tA = ((1 / 2, 0), (0, 1 / 2)), tb = (0, 0)\<rparr>
   \<and> requestAnimationFrame host0
   \<and> dispatch host0 touchmove pinch_in zoom_min
       = previewZoom host0 (zoom_min\<lparr>destCoords := ((0, 0), (5, 0))\<rparr>)
   \<and> previewZoom host0 (zoom_min\<lparr>destCoords := ((0, 0), (5, 0))\<rparr>)
       = Inr (zoom_min\<lparr>destCoords := ((0, 0), (5, 0)),
                       activeZoom := \<lparr>tA = ((3 / 4, 0), (0, 3 / 4)), tb = (0, 0)\<rparr>,
                       isAnimationRunning := True,
                       frames := [\<lparr>animZ = \<lparr>tA = ((3 / 4, 0), (0, 3 / 4)), tb = (0, 0)\<rparr>,
                                   newIdentity = identity, startTime = None\<rparr>]\<rparr>)
   \<and> previewZoom host_plain (zoom_min\<lparr>destCoords := ((0, 0), (5, 0))\<rparr>)
       = Inr (zoom_min\<lparr>destCoords := ((0, 0), (5, 0)),
                       activeZoom := \<lparr>tA = ((3 / 4, 0), (0, 3 / 4)), tb = (0, 0)\<rparr>,
                       resultantZoom := identity, painted := [identity]\<rparr>)"
proof -
  let ?s = "zoom_min\<lparr>destCoords := ((0, 0), (5, 0))\<rparr>"
  let ?Z = "\<lparr>tA = ((1 / 2, 0), (0, 1 / 2)), tb = (0, 0)\<rparr> :: transform"
  have m: "minScale (config ?s) = Some (1 / 2)" by (simp add: sample_defs zoom_min_def)
  have nz: "(1 / 2 :: real) \<noteq> 0" by simp
  have z: "zoom (srcCoords ?s) (destCoords ?s) (rotate_cfg (config ?s)) = Inr ?Z"
    by (simp add: sample_defs zoom_min_def zoom_def rotscale_def js_div_def vec_defs
        rotate_m_def Let_def)
  have c: "cascade ?Z (activeZoom ?s) = ?Z"
    by (simp add: sample_defs zoom_min_def cascade_def vec_defs identity_def)
  have e: "dispatch host0 touchmove pinch_in zoom_min = previewZoom host0 ?s"
    by (simp add: sample_defs zoom_min_def pinch_in_def dispatch_def handleZoom_def
        handleTouchEvent_def setDest_def getCoords_def Let_def)
  have a: "fst (fst (tA (cascade ?Z (activeZoom ?s)))) \<le> 1 / 2"
    and b: "snd (snd (tA (cascade ?Z (activeZoom ?s)))) \<le> 1 / 2"
    using c by simp_all
  show ?thesis
    using previewZoom_minScale_snap_back [OF m nz z a b, of host0]
      previewZoom_minScale_snap_back [OF m nz z a b, of host_plain] z c e
    by (simp add: sample_defs zoom_min_def)
qed

text \<open>
  The claim as worded fails when \<open>minScale\<close> is set to 0: the code tests \<open>if (minScale)\<close>, and
  0 is falsy. After half a turn of the fingers both diagonal components are \<open>-1\<close>, at most
  \<open>minScale\<close>, and the move event displays that preview: nothing is finalized and no reset
  runs.
\<close>

theorem previewZoom_minScale_zero_counterexample:
  "minScale (config zoom_min0) = Some 0
   \<and> zoom (srcCoords zoom_min0) ((0, 0), (- 10, 0)) (rotate_cfg (config zoom_min0))
       = Inr \<lparr>tA = ((- 1, 0), (0, - 1)), tb = (0, 0)\<rparr>
   \<and> cascade \<lparr>tA = ((- 1, 0), (0, - 1)), tb = (0, 0)\<rparr> (activeZoom zoom_min0)
       = \<lparr>tA = ((- 1, 0), (0, - 1)), tb = (0, 0)\<rparr>
   \<and> (- 1 :: real) \<le> 0
   \<and> dispatch host0 touchmove half_turn zoom_min0
       = Inr (zoom_min0\<lparr>destCoords := ((0, 0), (- 10, 0)),
                        resultantZoom := \<lparr>tA = ((- 1, 0), (0, - 1)), tb = (0, 0)\<rparr>,
                        painted := [\<lparr>tA = ((- 1, 0), (0, - 1)), tb = (0, 0)\<rparr>]\<rparr>)"
  by (simp add: sample_defs zoom_min0_def half_turn_def run_defs)

text \<open>
  The animation that the snap-back of \<open>zoom_min\<close> scheduled, run by frames at 1000, 1050 and
  1100 ms and by the timeout after the last: it paints the start, the half-way blend and
  the identity, then clears the flag.
\<close>

lemma snap_back_runs:
  "graceTimeout (animationFrame 1100 (animationFrame 1050 (animationFrame 1000
      (zoom_min\<lparr>destCoords := ((0, 0), (5, 0)),
                activeZoom := \<lparr>tA = ((3 / 4, 0), (0, 3 / 4)), tb = (0, 0)\<rparr>,
                isAnimationRunning := True,
                frames := [\<lparr>animZ = \<lparr>tA = ((3 / 4, 0), (0, 3 / 4)), tb = (0, 0)\<rparr>,
                            newIdentity = identity, startTime = None\<rparr>]\<rparr>))))
   = zoom_min\<lparr>destCoords := ((0, 0), (5, 0)),
              activeZoom := \<lparr>tA = ((3 / 4, 0), (0, 3 / 4)), tb = (0, 0)\<rparr>,
              resultantZoom := identity,
              painted := [identity, \<lparr>tA = ((7 / 8, 0), (0, 7 / 8)), tb = (0, 0)\<rparr>,
                          \<lparr>tA = ((3 / 4, 0), (0, 3 / 4)), tb = (0, 0)\<rparr>]\<rparr>"
  by (simp add: sample_defs zoom_min_def animationFrame_def step_def graceTimeout_def
      setZoom_def repaint_def avg_def avgMatrix_def avgVector_def vec_defs identity_def Let_def)

text \<open>
  What \<open>previewZoom\<close> displays never has both diagonal components above \<open>maxScale\<close>: on a
  host with a frame scheduler it either leaves the displayed transform as it was or
  displays one with a component at or below the ceiling.
\<close>

lemma checkBoundaries_tA: "tA (checkBoundaries h s r) = tA r"
  by (simp add: checkBoundaries_def Let_def)

lemma reset_animated_keeps_display:
  "requestAnimationFrame h \<Longrightarrow> resultantZoom (reset h u s) = resultantZoom s"
  by (simp add: reset_def Let_def)

lemma previewZoom_displays_below_ceiling:
  assumes "previewZoom h s = Inr s'" and "maxScale (config s) = Some M" and "M \<noteq> 0"
    and "requestAnimationFrame h"
  shows "resultantZoom s' = resultantZoom s
         \<or> fst (fst (tA (resultantZoom s'))) \<le> M \<or> snd (snd (tA (resultantZoom s'))) \<le> M"
proof (cases "zoom (srcCoords s) (destCoords s) (rotate_cfg (config s))")
  case (Inl e)
  then show ?thesis using assms(1) by (simp add: previewZoom_def)
next
  case (Inr Z)
  let ?R = "cascade Z (activeZoom s)"
  obtain proceed s1 where cp: "checkPan h ?R s = (proceed, s1)" by (cases "checkPan h ?R s")
  have keep: "resultantZoom s1 = resultantZoom s"
    using cp assms(4)
    by (auto simp add: checkPan_def Let_def reset_animated_keeps_display finalize_def
        split: if_splits)
  show ?thesis
  proof (cases proceed)
    case False
    then have "s' = s1" using assms(1) Inr cp by (simp add: previewZoom_def Let_def)
    then show ?thesis using keep by simp
  next
    case True
    then have s': "s' = repaint (s1\<lparr>resultantZoom := checkBoundaries h s1 ?R\<rparr>)"
      using assms(1) Inr cp by (simp add: previewZoom_def Let_def)
    have cfg: "config s1 = config s"
      using cp by (auto simp add: checkPan_def Let_def reset_def finalize_def setZoom_def
          repaint_def split: if_splits)
    have "\<not> (fst (fst (tA ?R)) > M \<and> snd (snd (tA ?R)) > M)"
      using cp True assms(2,3) cfg
      by (auto simp add: checkPan_def Let_def split: if_splits)
    then show ?thesis
      by (auto simp add: s' repaint_def checkBoundaries_tA)
  qed
qed

text \<open>
  C3, amended: when \<open>maxScale\<close> is set to a number other than 0, \<open>minScale\<close> (if set) does
  not exceed it, and both diagonal components of the proposed preview exceed \<open>maxScale\<close>,
  \<open>previewZoom\<close> rejects the proposal as a whole and triggers no reset: the Zoom object
  is left as it was, so the displayed scale does not grow and the displayed translation
  does not change either (a pan carried by the rejected event is dropped with it).
  Pan updates the translation on the events that are not rejected: a proposal that only
  translates a displayed transform whose components are not both above \<open>maxScale\<close> is
  displayed (here with \<open>minScale\<close> unset and \<open>boundaries\<close> off).
\<close>

theorem previewZoom_maxScale_ceiling:
  assumes "maxScale (config s) = Some M" and "M \<noteq> 0"
    and "zoom (srcCoords s) (destCoords s) (rotate_cfg (config s)) = Inr Z"
  shows "(fst (fst (tA (cascade Z (activeZoom s)))) > M
          \<and> snd (snd (tA (cascade Z (activeZoom s)))) > M
          \<and> (\<forall>m. minScale (config s) = Some m \<longrightarrow> m \<le> M)
          \<longrightarrow> previewZoom h s = Inr s)
       \<and> (tA Z = ((1, 0), (0, 1))
          \<and> \<not> (fst (fst (tA (activeZoom s))) > M \<and> snd (snd (tA (activeZoom s))) > M)
          \<and> minScale (config s) = None \<and> \<not> boundaries (config s)
          \<longrightarrow> previewZoom h s =
                Inr (repaint (s\<lparr>resultantZoom :=
                       \<lparr>tA = tA (activeZoom s), tb = vcadd (tb (activeZoom s)) (tb Z)\<rparr>\<rparr>)))"
  using previewZoom_max [OF assms(1,2) _ assms(3)] previewZoom_pan [OF assms(1,3)]
  by blast

text \<open>
  With \<open>maxScale\<close> 2 and scale 2 on display: the pinch to (5,5), (25,5) proposes scale 4
  and is rejected; the one-finger drag by (3,4) is displayed.
\<close>

theorem previewZoom_maxScale_ceiling_witness:
  "maxScale (config zoom_max) = Some 2 \<and> (2 :: real) \<noteq> 0
   \<and> zoom (srcCoords zoom_max) ((5, 5), (25, 5)) (rotate_cfg (config zoom_max))
       = Inr \<lparr>tA = ((2, 0), (0, 2)), tb = (5, 5)\<rparr>
   \<and> cascade \<lparr>tA = ((2, 0), (0, 2)), tb = (5, 5)\<rparr> (activeZoom zoom_max)
       = \<lparr>tA = ((4, 0), (0, 4)), tb = (5, 5)\<rparr>
   \<and> minScale (config zoom_max) = None
   \<and> previewZoom host0 (zoom_max\<lparr>destCoords := ((5, 5), (25, 5))\<rparr>)
       = Inr (zoom_max\<lparr>destCoords := ((5, 5), (25, 5))\<rparr>)
   \<and> maxScale (config zoom_drag) = Some 2
   \<and> zoom (srcCoords zoom_drag) (destCoords zoom_drag) (rotate_cfg (config zoom_drag))
       = Inr \<lparr>tA = ((1, 0), (0, 1)), tb = (3, 4)\<rparr>
   \<and> activeZoom zoom_drag = twice
   \<and> boundaries (config zoom_drag) = False
   \<and> previewZoom host0 zoom_drag
       = Inr (zoom_drag\<lparr>resultantZoom := \<lparr>tA = ((2, 0), (0, 2)), tb = (3, 4)\<rparr>,
                        painted := [\<lparr>tA = ((2, 0), (0, 2)), tb = (3, 4)\<rparr>]\<rparr>)"
proof -
  have z1: "zoom (srcCoords (zoom_max\<lparr>destCoords := ((5, 5), (25, 5))\<rparr>))
              (destCoords (zoom_max\<lparr>destCoords := ((5, 5), (25, 5))\<rparr>))
              (rotate_cfg (config (zoom_max\<lparr>destCoords := ((5, 5), (25, 5))\<rparr>)))
            = Inr \<lparr>tA = ((2, 0), (0, 2)), tb = (5, 5)\<rparr>"
    by (simp add: sample_defs zoom_max_def zoom_def rotscale_def js_div_def vec_defs
        rotate_m_def Let_def)
  have m1: "maxScale (config (zoom_max\<lparr>destCoords := ((5, 5), (25, 5))\<rparr>)) = Some 2"
    by (simp add: sample_defs zoom_max_def)
  have z2: "zoom (srcCoords zoom_drag) (destCoords zoom_drag) (rotate_cfg (config zoom_drag))
            = Inr \<lparr>tA = ((1, 0), (0, 1)), tb = (3, 4)\<rparr>"
    by (simp add: sample_defs zoom_max_def zoom_drag_def zoom_def rotscale_def js_div_def
        vec_defs rotate_m_def Let_def)
  have m2: "maxScale (config zoom_drag) = Some 2"
    by (simp add: sample_defs zoom_max_def zoom_drag_def)
  have two: "(2 :: real) \<noteq> 0" by simp
  show ?thesis
    using previewZoom_maxScale_ceiling [OF m1 two z1, of host0]
      previewZoom_maxScale_ceiling [OF m2 two z2, of host0] z1 z2
    by (simp add: sample_defs zoom_max_def zoom_drag_def cascade_def vec_defs repaint_def)
qed

text \<open>
  The claim as worded (a concurrent pan still updates the translation) fails: with
  \<open>maxScale\<close> 2 and scale 2 on display at translation (0,0), the move event \<open>pinch_pan\<close>
  doubles the finger distance and shifts both fingers by (5,5). Its proposal has the
  translation (5,5) and scale 4; it is rejected, and the event changes the destination
  pair only: the displayed translation stays (0,0) and nothing is painted.
\<close>

theorem previewZoom_maxScale_drops_pan:
  "maxScale (config zoom_max) = Some 2
   \<and> tb (resultantZoom zoom_max) = (0, 0)
   \<and> zoom (srcCoords zoom_max) ((5, 5), (25, 5)) (rotate_cfg (config zoom_max))
       = Inr \<lparr>tA = ((2, 0), (0, 2)), tb = (5, 5)\<rparr>
   \<and> cascade \<lparr>tA = ((2, 0), (0, 2)), tb = (5, 5)\<rparr> (activeZoom zoom_max)
       = \<lparr>tA = ((4, 0), (0, 4)), tb = (5, 5)\<rparr>
   \<and> dispatch host0 touchmove pinch_pan zoom_max
       = Inr (zoom_max\<lparr>destCoords := ((5, 5), (25, 5))\<rparr>)"
  by (simp add: sample_defs zoom_max_def pinch_pan_def run_defs)

end
